theory Spec2Isabelle
  imports Main
begin

section \<open>Strings and numbers of the host language\<close>

text \<open>
  The program is a browser script (\<^verbatim>\<open>src/script.js\<close>). Its strings are modelled as
  \<^typ>\<open>string\<close>, a list of 8-bit characters holding the UTF-8 bytes of the text; every
  string the time functions look into is ASCII.

  JavaScript numbers are double-precision floats. The model computes with \<^typ>\<open>int\<close> and
  keeps to the fragment where the two agree exactly: a string converts to a number only
  when it is a run of at most 14 decimal digits, so that every product and sum below stays
  under \<open>2 ^ 53\<close>. Outside that fragment the conversion yields \<open>None\<close>: the source would
  produce \<^verbatim>\<open>NaN\<close>, a fraction, or the value of a signed, hexadecimal or exponent literal,
  none of which is modelled.
\<close>

definition is_digit :: "char \<Rightarrow> bool" where
  "is_digit c = (48 \<le> (of_char c :: nat) \<and> (of_char c :: nat) \<le> 57)"

definition digit_val :: "char \<Rightarrow> nat" where
  "digit_val c = of_char c - 48"

definition digit_char :: "nat \<Rightarrow> char" where
  "digit_char n = ''0123456789'' ! n"

text \<open>
  \<^verbatim>\<open>Number(s)\<close> on a string of decimal digits; \<^verbatim>\<open>Number("")\<close> is 0, as is the fold over
  the empty string.
\<close>

definition Number :: "string \<Rightarrow> int option" where
  "Number s =
     (if list_all is_digit s \<and> length s \<le> 14
      then Some (int (foldl (\<lambda>a c. 10 * a + digit_val c) 0 s))
      else None)"

text \<open>
  The decimal text a template literal gives an integer: no padding, a leading minus sign
  for a negative value.
\<close>

fun show_nat :: "nat \<Rightarrow> string" where
  "show_nat n =
     (if n < 10 then [digit_char n] else show_nat (n div 10) @ [digit_char (n mod 10)])"

declare show_nat.simps [simp del]

definition show_int :: "int \<Rightarrow> string" where
  "show_int i = (if i < 0 then CHR ''-'' # show_nat (nat (- i)) else show_nat (nat i))"

text \<open>
  The remainder operator \<^verbatim>\<open>%\<close> truncates towards zero: the result has the sign of the
  dividend. The divisors in the program are the constants 60 and 12.
\<close>

definition js_rem :: "int \<Rightarrow> int \<Rightarrow> int" where
  "js_rem a b = sgn a * (\<bar>a\<bar> mod \<bar>b\<bar>)"

text \<open>\<^verbatim>\<open>s.split(sep)\<close> for a one-character separator: always at least one piece.\<close>

fun split_on :: "char \<Rightarrow> string \<Rightarrow> string list" where
  "split_on sep [] = [[]]"
| "split_on sep (c # cs) =
     (if c = sep then [] # split_on sep cs
      else (case split_on sep cs of [] \<Rightarrow> [[c]] | w # ws \<Rightarrow> (c # w) # ws))"

text \<open>
  Array destructuring \<^verbatim>\<open>const [a, b] = xs\<close> reads \<^verbatim>\<open>xs[0]\<close> and \<^verbatim>\<open>xs[1]\<close>; a missing
  element is \<^verbatim>\<open>undefined\<close>, here \<open>None\<close>.
\<close>

definition element :: "'a list \<Rightarrow> nat \<Rightarrow> 'a option" where
  "element xs i = (if i < length xs then Some (xs ! i) else None)"

section \<open>Journey duration (script.js, lines 138 to 155)\<close>

text \<open>
  \<^verbatim>\<open>timeString.split(':').map(Number)\<close> destructured into two numbers. An \<^verbatim>\<open>undefined\<close>
  component makes the arithmetic \<^verbatim>\<open>NaN\<close>, which is outside the fragment like a failed
  conversion.
\<close>

definition clock_parts :: "string \<Rightarrow> (int \<times> int) option" where
  "clock_parts timeString =
     (let parts = map Number (split_on (CHR '':'') timeString) in
      case (element parts 0, element parts 1) of
        (Some (Some hours), Some (Some minutes)) \<Rightarrow> Some (hours, minutes)
      | _ \<Rightarrow> None)"

text \<open>The value of the local \<^verbatim>\<open>durationMinutes\<close> at line 150.\<close>

definition durationMinutes :: "string \<Rightarrow> string \<Rightarrow> int option" where
  "durationMinutes departureTime arrivalTime =
     (case (clock_parts departureTime, clock_parts arrivalTime) of
        (Some (depHours, depMinutes), Some (arrHours, arrMinutes)) \<Rightarrow>
          (let depTotalMinutes = depHours * 60 + depMinutes;
               arrTotalMinutes = arrHours * 60 + arrMinutes;
               arrTotalMinutes =
                 (if arrTotalMinutes < depTotalMinutes then arrTotalMinutes + 24 * 60
                  else arrTotalMinutes)
           in Some (arrTotalMinutes - depTotalMinutes))
      | _ \<Rightarrow> None)"

text \<open>Lines 151 to 154: \<^verbatim>\<open>Math.floor\<close> of the quotient, the remainder, the template.\<close>

definition duration_text :: "int \<Rightarrow> string" where
  "duration_text d =
     (let hours = d div 60; minutes = js_rem d 60
      in show_int hours @ ''h '' @ show_int minutes @ ''m'')"

definition calculateDuration :: "string \<Rightarrow> string \<Rightarrow> string option" where
  "calculateDuration departureTime arrivalTime =
     map_option duration_text (durationMinutes departureTime arrivalTime)"

section \<open>Time of day in 12-hour form (script.js, lines 158 to 163)\<close>

text \<open>
  Here the pieces stay strings: \<^verbatim>\<open>hours\<close> is converted by \<^verbatim>\<open>%\<close> and by \<^verbatim>\<open>>=\<close>, and
  \<^verbatim>\<open>minutes\<close> goes into the template as it is (a missing second piece prints as
  \<^verbatim>\<open>undefined\<close>). \<^verbatim>\<open>x || 12\<close> is 12 when \<^verbatim>\<open>x\<close> is 0.
\<close>

definition formatTime :: "string \<Rightarrow> string option" where
  "formatTime timeString =
     (let parts = split_on (CHR '':'') timeString;
          minutes = (case element parts 1 of Some m \<Rightarrow> m | None \<Rightarrow> ''undefined'')
      in case Option.bind (element parts 0) Number of
           None \<Rightarrow> None
         | Some hours \<Rightarrow>
             (let hour12 = (if js_rem hours 12 = 0 then 12 else js_rem hours 12);
                  ampm = (if hours \<ge> 12 then ''PM'' else ''AM'')
              in Some (show_int hour12 @ '':'' @ minutes @ '' '' @ ampm)))"

section \<open>Data model\<close>

text \<open>The records of the search response, as section 3 of the specification names them.\<close>

record StationRef =
  stationCode :: string
  stationName :: string

record TrainRef =
  trainNumber :: string
  trainName :: string

record TripResult =
  source :: StationRef
  destination :: StationRef
  train :: TrainRef
  departureTime :: string
  arrivalTime :: string

text \<open>An exception value: the two properties the handler at lines 59 to 68 reads.\<close>

record js_error =
  name :: string
  message :: string

text \<open>
  A card built by \<^verbatim>\<open>createTrainCard\<close>. Its \<^verbatim>\<open>style.animationDelay\<close> is the text of the
  floating-point product \<^verbatim>\<open>index * 0.1\<close>; the model keeps the index it is computed from.
  Its markup is \<open>None\<close> when a time of the record lies outside the fragment of numbers
  modelled: the source builds the card all the same, with a text the model does not give.
\<close>

record card =
  className :: string
  animationIndex :: nat
  innerHTML :: "string option"

text \<open>
  A child of the \<^verbatim>\<open>trainsList\<close> element: a card appended by \<^verbatim>\<open>appendChild\<close>, or the
  content parsed from markup assigned to \<^verbatim>\<open>innerHTML\<close>.
\<close>

datatype node = Markup string | Card card

datatype timer = RevealResults

text \<open>
  The part of the page the script reads and writes: the two input fields, the
  \<^verbatim>\<open>style.display\<close> of the loading, error and results elements, the error text, the
  route summary, the children of the list, and logs of what leaves the page: the
  requests sent, the errors written to the console, the elements scrolled into view and
  the timers pending.
\<close>

record page =
  sourceCode_value :: string
  destinationCode_value :: string
  loading_display :: string
  errorMessage_display :: string
  errorText_textContent :: string
  resultsContainer_display :: string
  routeInfo_innerHTML :: string
  trainsList_children :: "node list"
  requests :: "string list"
  console_errors :: "js_error list"
  scrolled :: "string list"
  timers :: "timer list"

text \<open>
  What the network answers to a request. \<^verbatim>\<open>fetch\<close> either rejects with an error or
  resolves with a response; \<^verbatim>\<open>response.json()\<close> either rejects or yields the parsed body.
  The body is a falsy value (\<^verbatim>\<open>null\<close>, \<^verbatim>\<open>false\<close>, \<^verbatim>\<open>0\<close>, the empty string) or an array of
  trip records; any other JSON value is outside the data model.
\<close>

datatype json_result = JsonRejected js_error | JsonFalsy | JsonArray "TripResult list"

record response =
  status :: nat
  statusText :: string
  body :: json_result

datatype fetch_result = FetchRejected js_error | FetchResolved response

text \<open>\<^verbatim>\<open>response.ok\<close>, which the platform sets for a status from 200 to 299.\<close>

definition ok :: "response \<Rightarrow> bool" where
  "ok r = (200 \<le> status r \<and> status r \<le> 299)"

section \<open>String operations of the form handler\<close>

text \<open>
  \<^verbatim>\<open>trim\<close> and \<^verbatim>\<open>toUpperCase\<close> are modelled on ASCII text only, which is what the input
  listeners at lines 208 to 214 leave in the fields. On a string with a byte of 128 or
  more both yield \<open>None\<close>: the host functions also strip Unicode white space (U+00A0,
  U+FEFF, U+2028 and others) and map letters beyond ASCII, which the model does not give.
  Within ASCII the white space is tab, line feed, vertical tab, form feed, carriage return
  and space, and the letters mapped are a to z.
\<close>

definition is_ascii :: "string \<Rightarrow> bool" where
  "is_ascii s = list_all (\<lambda>c. (of_char c :: nat) < 128) s"

definition is_space :: "char \<Rightarrow> bool" where
  "is_space c = ((9 \<le> (of_char c :: nat) \<and> (of_char c :: nat) \<le> 13) \<or> c = CHR '' '')"

definition trim :: "string \<Rightarrow> string option" where
  "trim s =
     (if is_ascii s then Some (rev (dropWhile is_space (rev (dropWhile is_space s))))
      else None)"

definition upper_char :: "char \<Rightarrow> char" where
  "upper_char c =
     (case map_of (zip ''abcdefghijklmnopqrstuvwxyz'' ''ABCDEFGHIJKLMNOPQRSTUVWXYZ'') c of
        Some u \<Rightarrow> u
      | None \<Rightarrow> c)"

definition toUpperCase :: "string \<Rightarrow> string option" where
  "toUpperCase s = (if is_ascii s then Some (map upper_char s) else None)"

text \<open>\<^verbatim>\<open>s.includes(sub)\<close>.\<close>

fun includes_str :: "string \<Rightarrow> string \<Rightarrow> bool" where
  "includes_str [] sub = (sub = [])"
| "includes_str (c # cs) sub = (take (length sub) (c # cs) = sub \<or> includes_str cs sub)"

text \<open>
  \<^verbatim>\<open>encodeURIComponent\<close>: every byte of the UTF-8 text other than a letter, a digit or one
  of \<^verbatim>\<open>-_.!~*'()\<close> becomes a percent sign and two upper-case hexadecimal digits.
\<close>

definition unreserved :: "char \<Rightarrow> bool" where
  "unreserved c =
     (c \<in> set ''abcdefghijklmnopqrstuvwxyz'' \<or> c \<in> set ''ABCDEFGHIJKLMNOPQRSTUVWXYZ'' \<or>
      c \<in> set ''0123456789'' \<or> c \<in> set ''-_.!~*()'' \<or> c = CHR 0x27)"

definition hex_char :: "nat \<Rightarrow> char" where
  "hex_char n = ''0123456789ABCDEF'' ! n"

definition encodeURIComponent :: "string \<Rightarrow> string" where
  "encodeURIComponent s =
     concat (map (\<lambda>c. if unreserved c then [c]
                       else [CHR ''%'', hex_char (of_char c div 16), hex_char (of_char c mod 16)]) s)"

section \<open>Showing and hiding (script.js, lines 165 to 205)\<close>

definition showLoading :: "page \<Rightarrow> page" where
  "showLoading p = p\<lparr>loading_display := ''block''\<rparr>"

definition hideLoading :: "page \<Rightarrow> page" where
  "hideLoading p = p\<lparr>loading_display := ''none''\<rparr>"

definition showError :: "string \<Rightarrow> page \<Rightarrow> page" where
  "showError msg p =
     p\<lparr>errorText_textContent := msg,
       errorMessage_display := ''block'',
       scrolled := scrolled p @ [''errorMessage'']\<rparr>"

definition hideError :: "page \<Rightarrow> page" where
  "hideError p = p\<lparr>errorMessage_display := ''none''\<rparr>"

definition hideResults :: "page \<Rightarrow> page" where
  "hideResults p = p\<lparr>resultsContainer_display := ''none''\<rparr>"

text \<open>
  Assigning markup to \<^verbatim>\<open>innerHTML\<close> replaces all children of the element; the empty
  string leaves none.
\<close>

definition set_innerHTML :: "string \<Rightarrow> node list" where
  "set_innerHTML html = (if html = [] then [] else [Markup html])"

text \<open>The arrow and the icon, byte for byte as the source file has them.\<close>

definition arrow :: string where
  "arrow = [CHR 0xC3, CHR 0xA2, CHR 0xE2, CHR 0x80, CHR 0xA0, CHR 0xE2, CHR 0x80, CHR 0x99]"

definition no_results_icon :: string where
  "no_results_icon = [CHR 0xC3, CHR 0xB0, CHR 0xC5, CHR 0xB8, CHR 0xC5, CHR 0xA1, CHR 0xC2, CHR 0xAB]"

definition no_results_markup :: "string \<Rightarrow> string \<Rightarrow> string" where
  \<open>no_results_markup sourceCode destinationCode =
     ''\<newline>'' @
     ''        <div class="no-results">\<newline>'' @
     ''            <div class="no-results-icon">'' @ no_results_icon @ ''</div>\<newline>'' @
     ''            <h3>No Trains Found</h3>\<newline>'' @
     ''            <p>No trains available from <strong>'' @ sourceCode @
       ''</strong> to <strong>'' @ destinationCode @ ''</strong></p>\<newline>'' @
     ''            <p>Please check the station codes and try again.</p>\<newline>'' @
     ''        </div>\<newline>'' @
     ''    ''\<close>

definition showNoResults :: "string \<Rightarrow> string \<Rightarrow> page \<Rightarrow> page" where
  "showNoResults sourceCode destinationCode p =
     p\<lparr>trainsList_children := set_innerHTML (no_results_markup sourceCode destinationCode),
       routeInfo_innerHTML := sourceCode @ '' '' @ arrow @ '' '' @ destinationCode,
       resultsContainer_display := ''block''\<rparr>"

section \<open>Cards and the result list (script.js, lines 72 to 135)\<close>

definition card_markup :: "TripResult \<Rightarrow> string \<Rightarrow> string \<Rightarrow> string \<Rightarrow> string" where
  \<open>card_markup trainData duration departure arrival =
     ''\<newline>'' @
     ''        <div class="train-header">\<newline>'' @
     ''            <div class="train-info">\<newline>'' @
     ''                <div class="train-name">'' @ trainName (train trainData) @ ''</div>\<newline>'' @
     ''                <div class="train-number">#'' @ trainNumber (train trainData) @ ''</div>\<newline>'' @
     ''            </div>\<newline>'' @
     ''        </div>\<newline>'' @
     ''        \<newline>'' @
     ''        <div class="journey-details">\<newline>'' @
     ''            <div class="station-info">\<newline>'' @
     ''                <div class="station-time">'' @ departure @ ''</div>\<newline>'' @
     ''                <div class="station-name">'' @ stationName (source trainData) @ ''</div>\<newline>'' @
     ''                <div class="station-code">'' @ stationCode (source trainData) @ ''</div>\<newline>'' @
     ''            </div>\<newline>'' @
     ''            \<newline>'' @
     ''            <div class="journey-arrow">\<newline>'' @
     ''                <div class="duration-badge">'' @ duration @ ''</div>\<newline>'' @
     ''                <div class="arrow-line"></div>\<newline>'' @
     ''            </div>\<newline>'' @
     ''            \<newline>'' @
     ''            <div class="station-info">\<newline>'' @
     ''                <div class="station-time">'' @ arrival @ ''</div>\<newline>'' @
     ''                <div class="station-name">'' @ stationName (destination trainData) @ ''</div>\<newline>'' @
     ''                <div class="station-code">'' @ stationCode (destination trainData) @ ''</div>\<newline>'' @
     ''            </div>\<newline>'' @
     ''        </div>\<newline>'' @
     ''    ''\<close>

definition createTrainCard :: "TripResult \<Rightarrow> nat \<Rightarrow> card" where
  "createTrainCard trainData index =
     \<lparr>className = ''train-card'',
      animationIndex = index,
      innerHTML =
        (case (calculateDuration (departureTime trainData) (arrivalTime trainData),
               formatTime (departureTime trainData), formatTime (arrivalTime trainData)) of
           (Some duration, Some departure, Some arrival) \<Rightarrow>
             Some (card_markup trainData duration departure arrival)
         | _ \<Rightarrow> None)\<rparr>"

text \<open>
  The \<^verbatim>\<open>forEach\<close> loop of lines 86 to 89: one card appended per record, the index counting
  from the position of the record in the array.
\<close>

fun append_cards :: "TripResult list \<Rightarrow> nat \<Rightarrow> page \<Rightarrow> page" where
  "append_cards [] index p = p"
| "append_cards (t # rest) index p =
     (let trainCard = createTrainCard t index
      in append_cards rest (Suc index)
           (p\<lparr>trainsList_children := trainsList_children p @ [Card trainCard]\<rparr>))"

definition route_markup :: "TripResult \<Rightarrow> string" where
  "route_markup firstTrain =
     ''\<newline>'' @
     ''            '' @ stationName (source firstTrain) @ '' ('' @
       stationCode (source firstTrain) @ '') \<newline>'' @
     ''            '' @ arrow @ '' '' @ stationName (destination firstTrain) @ '' ('' @
       stationCode (destination firstTrain) @ '')\<newline>'' @
     ''        ''"

text \<open>
  \<^verbatim>\<open>displayResults\<close>. The two station-code arguments are not used by the body. The
  callback given to \<^verbatim>\<open>setTimeout\<close> is recorded as a pending timer; \<open>fire_timer\<close> is that
  callback running.
\<close>

definition displayResults :: "TripResult list \<Rightarrow> string \<Rightarrow> string \<Rightarrow> page \<Rightarrow> page" where
  "displayResults trains sourceCode destinationCode p =
     (let p = (if length trains > 0
               then p\<lparr>routeInfo_innerHTML := route_markup (trains ! 0)\<rparr>
               else p);
          p = p\<lparr>trainsList_children := set_innerHTML ''''\<rparr>;
          p = append_cards trains 0 p
      in p\<lparr>timers := timers p @ [RevealResults]\<rparr>)"

definition fire_timer :: "page \<Rightarrow> page" where
  "fire_timer p =
     (case timers p of
        [] \<Rightarrow> p
      | RevealResults # pending \<Rightarrow>
          p\<lparr>resultsContainer_display := ''block'',
            scrolled := scrolled p @ [''resultsContainer''],
            timers := pending\<rparr>)"

section \<open>The search (script.js, lines 10 to 69)\<close>

definition API_BASE_URL :: string where
  "API_BASE_URL = ''http://localhost:8080''"

definition SEARCH_ENDPOINT :: string where
  "SEARCH_ENDPOINT = ''/search/by-code''"

definition search_url :: "string \<Rightarrow> string \<Rightarrow> string" where
  "search_url sourceCode destinationCode =
     API_BASE_URL @ SEARCH_ENDPOINT @ ''?sourceCode='' @ encodeURIComponent sourceCode @
     ''&destinationCode='' @ encodeURIComponent destinationCode"

text \<open>Lines 36 to 38, before anything is sent.\<close>

definition searchTrains_prepare :: "page \<Rightarrow> page" where
  "searchTrains_prepare p = hideResults (hideError (showLoading p))"

text \<open>Line 43: the request leaves the page, and the function waits for its outcome.\<close>

definition fetch :: "string \<Rightarrow> page \<Rightarrow> page" where
  "fetch url p = p\<lparr>requests := requests p @ [url]\<rparr>"

definition searchTrains_dispatch :: "string \<Rightarrow> string \<Rightarrow> page \<Rightarrow> page" where
  "searchTrains_dispatch sourceCode destinationCode p =
     fetch (search_url sourceCode destinationCode) (searchTrains_prepare p)"

text \<open>The \<^verbatim>\<open>catch\<close> block, lines 59 to 68.\<close>

definition connect_message :: string where
  "connect_message =
     ''Unable to connect to the server. Please check if the API is running on http://localhost:8080''"

definition searchTrains_catch :: "js_error \<Rightarrow> page \<Rightarrow> page" where
  "searchTrains_catch error p =
     (let p = hideLoading p;
          p = p\<lparr>console_errors := console_errors p @ [error]\<rparr>
      in if name error = ''TypeError'' \<and> includes_str (message error) ''fetch''
         then showError connect_message p
         else showError (''Search failed: '' @ message error) p)"

text \<open>
  The rest of the \<^verbatim>\<open>try\<close> block, lines 45 to 57, run on the outcome of the request in
  the page as it is when the outcome arrives.
\<close>

definition searchTrains_settle ::
    "string \<Rightarrow> string \<Rightarrow> fetch_result \<Rightarrow> page \<Rightarrow> page" where
  "searchTrains_settle sourceCode destinationCode outcome p =
     (case outcome of
        FetchRejected error \<Rightarrow> searchTrains_catch error p
      | FetchResolved response \<Rightarrow>
          if \<not> ok response
          then searchTrains_catch
                 \<lparr>name = ''Error'',
                  message = ''HTTP '' @ show_nat (status response) @ '': '' @
                    statusText response\<rparr> p
          else (case body response of
                  JsonRejected error \<Rightarrow> searchTrains_catch error p
                | JsonFalsy \<Rightarrow> showNoResults sourceCode destinationCode (hideLoading p)
                | JsonArray data \<Rightarrow>
                    (let p = hideLoading p
                     in if length data = 0
                        then showNoResults sourceCode destinationCode p
                        else displayResults data sourceCode destinationCode p)))"

definition searchTrains :: "string \<Rightarrow> string \<Rightarrow> fetch_result \<Rightarrow> page \<Rightarrow> page" where
  "searchTrains sourceCode destinationCode outcome p =
     searchTrains_settle sourceCode destinationCode outcome
       (searchTrains_dispatch sourceCode destinationCode p)"

section \<open>The submit handler (script.js, lines 15 to 32)\<close>

text \<open>
  The outcome is what the network would answer if the handler got as far as the request.
  The result is \<open>None\<close> when a field holds text outside ASCII, where the normalised code
  is not modelled.
\<close>

definition submit :: "fetch_result \<Rightarrow> page \<Rightarrow> page option" where
  "submit outcome p =
     (case (Option.bind (trim (sourceCode_value p)) toUpperCase,
            Option.bind (trim (destinationCode_value p)) toUpperCase) of
        (Some sourceCode, Some destinationCode) \<Rightarrow>
          Some (if sourceCode = [] \<or> destinationCode = []
                then showError ''Please enter both source and destination station codes.'' p
                else if sourceCode = destinationCode
                then showError ''Source and destination stations cannot be the same.'' p
                else searchTrains sourceCode destinationCode outcome p)
      | _ \<Rightarrow> None)"

section \<open>Well-formed clock times\<close>

text \<open>
  The data model's invariant on \<^verbatim>\<open>departureTime\<close> and \<^verbatim>\<open>arrivalTime\<close>: two digits, a
  colon, two digits, the hour at most 23 and the minute at most 59. The hour and minute
  are read off by position, independently of the program's own parsing.
\<close>

definition hour_of :: "string \<Rightarrow> int" where
  "hour_of s = int (10 * digit_val (s ! 0) + digit_val (s ! 1))"

definition minute_of :: "string \<Rightarrow> int" where
  "minute_of s = int (10 * digit_val (s ! 3) + digit_val (s ! 4))"

definition wellformed_time :: "string \<Rightarrow> bool" where
  "wellformed_time s =
     (length s = 5 \<and> is_digit (s ! 0) \<and> is_digit (s ! 1) \<and> s ! 2 = CHR '':'' \<and>
      is_digit (s ! 3) \<and> is_digit (s ! 4) \<and> hour_of s \<le> 23 \<and> minute_of s \<le> 59)"

text \<open>The duration the specification describes, in minutes.\<close>

definition spec_total :: "string \<Rightarrow> string \<Rightarrow> int" where
  "spec_total dep arr =
     (let departureMinutes = hour_of dep * 60 + minute_of dep;
          arrivalMinutes = hour_of arr * 60 + minute_of arr
      in (if arrivalMinutes < departureMinutes then arrivalMinutes + 1440
          else arrivalMinutes) - departureMinutes)"

section \<open>A page and a trip to run the program on\<close>

definition blank_page :: page where
  "blank_page =
     \<lparr>sourceCode_value = '''', destinationCode_value = '''',
      loading_display = ''none'', errorMessage_display = ''none'',
      errorText_textContent = '''', resultsContainer_display = ''none'',
      routeInfo_innerHTML = '''', trainsList_children = [], requests = [],
      console_errors = [], scrolled = [], timers = []\<rparr>"

definition sample_trip :: TripResult where
  "sample_trip =
     \<lparr>source = \<lparr>stationCode = ''NDLS'', stationName = ''New Delhi''\<rparr>,
      destination = \<lparr>stationCode = ''HWH'', stationName = ''Howrah Junction''\<rparr>,
      train = \<lparr>trainNumber = ''12302'', trainName = ''Rajdhani Express''\<rparr>,
      departureTime = ''16:50'', arrivalTime = ''09:55''\<rparr>"

definition wellformed_trip :: "TripResult \<Rightarrow> bool" where
  "wellformed_trip t = (wellformed_time (departureTime t) \<and> wellformed_time (arrivalTime t))"


section \<open>Parsing a well-formed time\<close>

lemma is_digit_not_colon: "is_digit c \<Longrightarrow> c \<noteq> CHR '':''"
  by (auto simp: is_digit_def)

lemma wellformed_time_shape:
  assumes "wellformed_time s"
  obtains a b d e where "s = [a, b, CHR '':'', d, e]"
    and "is_digit a" and "is_digit b" and "is_digit d" and "is_digit e"
proof -
  from assms have len: "length s = 5"
    by (simp add: wellformed_time_def)
  then obtain a b c d e where s: "s = [a, b, c, d, e]"
    by (auto simp: length_Suc_conv eval_nat_numeral)
  with assms show thesis
    by (intro that [of a b d e]) (simp_all add: wellformed_time_def)
qed

lemma Number_two_digits:
  "is_digit a \<Longrightarrow> is_digit b \<Longrightarrow> Number [a, b] = Some (int (10 * digit_val a + digit_val b))"
  by (simp add: Number_def)

lemma clock_parts_wellformed:
  assumes "wellformed_time s"
  shows "clock_parts s = Some (hour_of s, minute_of s)"
proof -
  from assms obtain a b d e where s: "s = [a, b, CHR '':'', d, e]"
    and dig: "is_digit a" "is_digit b" "is_digit d" "is_digit e"
    by (rule wellformed_time_shape)
  from dig have ne: "a \<noteq> CHR '':''" "b \<noteq> CHR '':''" "d \<noteq> CHR '':''" "e \<noteq> CHR '':''"
    by (simp_all add: is_digit_not_colon)
  have sp: "split_on (CHR '':'') s = [[a, b], [d, e]]"
    using ne by (simp add: s)
  have "clock_parts s =
      Some (int (10 * digit_val a + digit_val b), int (10 * digit_val d + digit_val e))"
    using dig by (simp add: clock_parts_def sp element_def Number_two_digits)
  moreover have "hour_of s = int (10 * digit_val a + digit_val b)"
    by (simp add: hour_of_def s)
  moreover have "minute_of s = int (10 * digit_val d + digit_val e)"
    by (simp add: minute_of_def s)
  ultimately show ?thesis
    by simp
qed

lemma clock_range:
  assumes "wellformed_time s"
  shows "0 \<le> hour_of s" "hour_of s \<le> 23" "0 \<le> minute_of s" "minute_of s \<le> 59"
  using assms by (simp_all add: wellformed_time_def hour_of_def minute_of_def)

lemma durationMinutes_wellformed:
  assumes "wellformed_time dep" and "wellformed_time arr"
  shows "durationMinutes dep arr = Some (spec_total dep arr)"
  using assms
  by (simp add: durationMinutes_def clock_parts_wellformed spec_total_def Let_def)

lemma spec_total_range:
  assumes "wellformed_time dep" and "wellformed_time arr"
  shows "0 \<le> spec_total dep arr" and "spec_total dep arr \<le> 1439"
proof -
  note d = clock_range [OF assms(1)] and a = clock_range [OF assms(2)]
  show "0 \<le> spec_total dep arr"
    using d a by (simp add: spec_total_def Let_def)
  show "spec_total dep arr \<le> 1439"
    using d a by (simp add: spec_total_def Let_def)
qed

lemma js_rem_nonneg: "0 \<le> a \<Longrightarrow> 0 < b \<Longrightarrow> js_rem a b = a mod b"
  by (cases "a = 0") (simp_all add: js_rem_def)

section \<open>Rendering numbers and times\<close>

lemma show_int_small: "0 \<le> i \<Longrightarrow> i < 10 \<Longrightarrow> show_int i = [digit_char (nat i)]"
  by (simp add: show_int_def show_nat.simps)

lemma calculateDuration_spec:
  assumes "wellformed_time dep" and "wellformed_time arr"
  shows "calculateDuration dep arr =
    Some (show_int (spec_total dep arr div 60) @ ''h '' @
          show_int (spec_total dep arr mod 60) @ ''m'')"
  using spec_total_range [OF assms]
  by (simp add: calculateDuration_def durationMinutes_wellformed [OF assms] duration_text_def
      Let_def js_rem_nonneg)

lemma hours_text_below_24:
  assumes "0 \<le> h" and "h \<le> 23"
  shows "show_int h @ ''h '' @ rest \<noteq> ''24h 0m''"
proof (cases "h < 10")
  case True
  with assms(1) show ?thesis
    by (simp add: show_int_small)
next
  case False
  with assms have "h = 10 \<or> h = 11 \<or> h = 12 \<or> h = 13 \<or> h = 14 \<or> h = 15 \<or> h = 16 \<or>
      h = 17 \<or> h = 18 \<or> h = 19 \<or> h = 20 \<or> h = 21 \<or> h = 22 \<or> h = 23"
    by arith
  then show ?thesis
    by (elim disjE) (simp_all add: show_int_def show_nat.simps digit_char_def)
qed

lemma formatTime_spec:
  assumes wf: "wellformed_time s"
  shows "formatTime s =
    Some (show_int (if hour_of s mod 12 = 0 then 12 else hour_of s mod 12) @ '':'' @
          drop 3 s @ '' '' @ (if hour_of s \<ge> 12 then ''PM'' else ''AM''))"
proof -
  from wf obtain a b d e where s: "s = [a, b, CHR '':'', d, e]"
    and dig: "is_digit a" "is_digit b" "is_digit d" "is_digit e"
    by (rule wellformed_time_shape)
  from dig have ne: "a \<noteq> CHR '':''" "b \<noteq> CHR '':''" "d \<noteq> CHR '':''" "e \<noteq> CHR '':''"
    by (simp_all add: is_digit_not_colon)
  have sp: "split_on (CHR '':'') s = [[a, b], [d, e]]"
    using ne by (simp add: s)
  have n: "Number [a, b] = Some (hour_of s)"
    using dig by (simp add: Number_two_digits hour_of_def s)
  have nonneg: "0 \<le> hour_of s"
    using wf by (rule clock_range)
  have dr: "drop 3 s = [d, e]"
    by (simp add: s)
  show ?thesis
    unfolding formatTime_def sp dr
    using nonneg by (simp add: element_def n js_rem_nonneg Let_def)
qed

lemma createTrainCard_wellformed:
  assumes "wellformed_trip t"
  shows "\<exists>duration departure arrival.
      calculateDuration (departureTime t) (arrivalTime t) = Some duration \<and>
      formatTime (departureTime t) = Some departure \<and>
      formatTime (arrivalTime t) = Some arrival \<and>
      innerHTML (createTrainCard t i) = Some (card_markup t duration departure arrival)"
proof -
  from assms have wd: "wellformed_time (departureTime t)" and wa: "wellformed_time (arrivalTime t)"
    by (simp_all add: wellformed_trip_def)
  obtain duration where 1: "calculateDuration (departureTime t) (arrivalTime t) = Some duration"
    using calculateDuration_spec [OF wd wa] by blast
  obtain departure where 2: "formatTime (departureTime t) = Some departure"
    using formatTime_spec [OF wd] by blast
  obtain arrival where 3: "formatTime (arrivalTime t) = Some arrival"
    using formatTime_spec [OF wa] by blast
  have "innerHTML (createTrainCard t i) = Some (card_markup t duration departure arrival)"
    by (simp add: createTrainCard_def 1 2 3)
  with 1 2 3 show ?thesis
    by blast
qed

section \<open>Effects of the page operations\<close>

lemma includes_str_prefix: "includes_str (sub @ b) sub"
proof (cases "sub @ b")
  case Nil
  then show ?thesis by simp
next
  case (Cons c cs)
  have "take (length sub) (sub @ b) = sub" by simp
  then show ?thesis unfolding Cons by simp
qed

lemma includes_str_append: "includes_str (a @ sub @ b) sub"
  by (induction a) (simp_all add: includes_str_prefix)

lemma append_cards_eq:
  "append_cards ts i p =
     p\<lparr>trainsList_children :=
         trainsList_children p @ map (\<lambda>(j, t). Card (createTrainCard t j)) (enumerate i ts)\<rparr>"
  by (induction ts arbitrary: i p) (simp_all add: Let_def)

lemma displayResults_eq:
  "displayResults trains s d p =
     (if trains = [] then p else p\<lparr>routeInfo_innerHTML := route_markup (hd trains)\<rparr>)
       \<lparr>trainsList_children := map (\<lambda>(j, t). Card (createTrainCard t j)) (enumerate 0 trains),
        timers := timers p @ [RevealResults]\<rparr>"
  by (cases trains) (simp_all add: displayResults_def append_cards_eq set_innerHTML_def Let_def)

lemma loading_catch: "loading_display (searchTrains_catch e q) = ''none''"
  by (simp add: searchTrains_catch_def hideLoading_def showError_def Let_def)

lemma requests_catch: "requests (searchTrains_catch e q) = requests q"
  by (simp add: searchTrains_catch_def hideLoading_def showError_def Let_def)

lemma loading_settle: "loading_display (searchTrains_settle s d outcome q) = ''none''"
  by (simp add: searchTrains_settle_def loading_catch showNoResults_def hideLoading_def
      displayResults_eq Let_def split: fetch_result.split json_result.split)

lemma requests_settle: "requests (searchTrains_settle s d outcome q) = requests q"
  by (simp add: searchTrains_settle_def requests_catch showNoResults_def hideLoading_def
      displayResults_eq Let_def split: fetch_result.split json_result.split)

lemma dispatch_fields:
  "loading_display (searchTrains_dispatch s d p) = ''block''"
  "errorMessage_display (searchTrains_dispatch s d p) = ''none''"
  "resultsContainer_display (searchTrains_dispatch s d p) = ''none''"
  "requests (searchTrains_dispatch s d p) = requests p @ [search_url s d]"
  "console_errors (searchTrains_dispatch s d p) = console_errors p"
  "timers (searchTrains_dispatch s d p) = timers p"
  by (simp_all add: searchTrains_dispatch_def fetch_def searchTrains_prepare_def hideResults_def
      hideError_def showLoading_def)

lemma is_ascii_trimmed:
  "is_ascii s \<Longrightarrow> is_ascii (rev (dropWhile is_space (rev (dropWhile is_space s))))"
  unfolding is_ascii_def list_all_iff
  by (metis set_dropWhileD set_rev)

lemma normalise_ascii:
  assumes "is_ascii s"
  shows "Option.bind (trim s) toUpperCase =
    Some (map upper_char (rev (dropWhile is_space (rev (dropWhile is_space s)))))"
  using assms is_ascii_trimmed [OF assms] by (simp add: trim_def toUpperCase_def)

section \<open>The claims\<close>

text \<open>
  Claim C1. For every pair of well-formed times, \<^verbatim>\<open>calculateDuration\<close> returns the hours, the
  letter h, a space, the minutes and the letter m, where the total is the arrival minus the
  departure in minutes since midnight, with 1440 added to the arrival first when it is the
  smaller; hours are the total divided by 60 and minutes the remainder, a remainder under
  ten being a single digit. Departure 23:30 with arrival 00:15 gives \<^verbatim>\<open>0h 45m\<close>, and
  departure 09:15 with arrival 11:45 gives \<^verbatim>\<open>2h 30m\<close>.
\<close>

theorem calculateDuration_wellformed:
  "(\<forall>dep arr. wellformed_time dep \<and> wellformed_time arr \<longrightarrow>
      calculateDuration dep arr =
        Some (show_int (spec_total dep arr div 60) @ ''h '' @
              show_int (spec_total dep arr mod 60) @ ''m'') \<and>
      (spec_total dep arr mod 60 < 10 \<longrightarrow>
         show_int (spec_total dep arr mod 60) = [digit_char (nat (spec_total dep arr mod 60))]))
   \<and> calculateDuration ''23:30'' ''00:15'' = Some ''0h 45m''
   \<and> calculateDuration ''09:15'' ''11:45'' = Some ''2h 30m''"
proof (intro conjI allI impI)
  fix dep arr
  assume "wellformed_time dep \<and> wellformed_time arr"
  then show "calculateDuration dep arr =
        Some (show_int (spec_total dep arr div 60) @ ''h '' @
              show_int (spec_total dep arr mod 60) @ ''m'')"
    by (simp add: calculateDuration_spec)
next
  fix dep arr
  assume "spec_total dep arr mod 60 < 10"
  then show "show_int (spec_total dep arr mod 60) = [digit_char (nat (spec_total dep arr mod 60))]"
    by (simp add: show_int_small)
next
  show "calculateDuration ''23:30'' ''00:15'' = Some ''0h 45m''"
    by code_simp
next
  show "calculateDuration ''09:15'' ''11:45'' = Some ''2h 30m''"
    by code_simp
qed

theorem calculateDuration_wellformed_witness:
  "wellformed_time ''09:00'' \<and> wellformed_time ''11:05'' \<and>
   spec_total ''09:00'' ''11:05'' = 125 \<and>
   calculateDuration ''09:00'' ''11:05'' = Some ''2h 5m''"
proof -
  have w: "wellformed_time ''09:00'' \<and> wellformed_time ''11:05''"
    by code_simp
  have t: "spec_total ''09:00'' ''11:05'' = 125"
    by code_simp
  have "calculateDuration ''09:00'' ''11:05'' =
      Some (show_int (spec_total ''09:00'' ''11:05'' div 60) @ ''h '' @
            show_int (spec_total ''09:00'' ''11:05'' mod 60) @ ''m'')"
    using calculateDuration_wellformed w by blast
  also have "\<dots> = Some ''2h 5m''"
    unfolding t by code_simp
  finally show ?thesis
    using w t by simp
qed

text \<open>
  Claim C2. For every well-formed time, \<^verbatim>\<open>formatTime\<close> returns the hour modulo 12, with 12 in
  place of 0, a colon, the two minute characters of the input unchanged, a space, and PM
  exactly when the hour is at least 12, AM otherwise. The four examples of the
  specification are included.
\<close>

theorem formatTime_wellformed:
  "(\<forall>s. wellformed_time s \<longrightarrow>
      formatTime s =
        Some (show_int (if hour_of s mod 12 = 0 then 12 else hour_of s mod 12) @ '':'' @
              drop 3 s @ '' '' @ (if hour_of s \<ge> 12 then ''PM'' else ''AM'')))
   \<and> formatTime ''00:05'' = Some ''12:05 AM''
   \<and> formatTime ''12:00'' = Some ''12:00 PM''
   \<and> formatTime ''23:59'' = Some ''11:59 PM''
   \<and> formatTime ''01:00'' = Some ''1:00 AM''"
proof (intro conjI allI impI)
  fix s
  assume "wellformed_time s"
  then show "formatTime s =
        Some (show_int (if hour_of s mod 12 = 0 then 12 else hour_of s mod 12) @ '':'' @
              drop 3 s @ '' '' @ (if hour_of s \<ge> 12 then ''PM'' else ''AM''))"
    by (rule formatTime_spec)
next
  show "formatTime ''00:05'' = Some ''12:05 AM''" by code_simp
  show "formatTime ''12:00'' = Some ''12:00 PM''" by code_simp
  show "formatTime ''23:59'' = Some ''11:59 PM''" by code_simp
  show "formatTime ''01:00'' = Some ''1:00 AM''" by code_simp
qed

theorem formatTime_wellformed_witness:
  "wellformed_time ''16:50'' \<and> hour_of ''16:50'' = 16 \<and> formatTime ''16:50'' = Some ''4:50 PM''"
proof -
  have w: "wellformed_time ''16:50''"
    by code_simp
  have h: "hour_of ''16:50'' = 16"
    by code_simp
  have "formatTime ''16:50'' =
      Some (show_int (if hour_of ''16:50'' mod 12 = 0 then 12 else hour_of ''16:50'' mod 12) @
            '':'' @ drop 3 ''16:50'' @ '' '' @ (if hour_of ''16:50'' \<ge> 12 then ''PM'' else ''AM''))"
    using formatTime_wellformed w by blast
  also have "\<dots> = Some ''4:50 PM''"
    unfolding h by code_simp
  finally show ?thesis
    using w h by simp
qed

text \<open>
  Claim C3. For fields holding ASCII text, the trimmed and upper-cased codes are defined.
  When one of them is empty or the two are equal, the submit handler only shows a validation
  message: the page is otherwise as it was and no request has been sent. When both codes are
  non-empty and distinct, the handler is the search on those codes, and one request is
  sent. So a request leaves the page only in the second case.
\<close>

theorem submit_validation:
  assumes "is_ascii (sourceCode_value p)" and "is_ascii (destinationCode_value p)"
  shows "\<exists>sourceCode destinationCode.
    Option.bind (trim (sourceCode_value p)) toUpperCase = Some sourceCode \<and>
    Option.bind (trim (destinationCode_value p)) toUpperCase = Some destinationCode \<and>
    (sourceCode = [] \<or> destinationCode = [] \<or> sourceCode = destinationCode \<longrightarrow>
       submit outcome p =
         Some (showError (if sourceCode = [] \<or> destinationCode = []
                          then ''Please enter both source and destination station codes.''
                          else ''Source and destination stations cannot be the same.'') p) \<and>
       map_option requests (submit outcome p) = Some (requests p) \<and>
       map_option errorMessage_display (submit outcome p) = Some ''block'') \<and>
    (sourceCode \<noteq> [] \<and> destinationCode \<noteq> [] \<and> sourceCode \<noteq> destinationCode \<longrightarrow>
       submit outcome p = Some (searchTrains sourceCode destinationCode outcome p) \<and>
       map_option requests (submit outcome p) =
         Some (requests p @ [search_url sourceCode destinationCode])) \<and>
    (map_option requests (submit outcome p) \<noteq> Some (requests p) \<longrightarrow>
       sourceCode \<noteq> [] \<and> destinationCode \<noteq> [] \<and> sourceCode \<noteq> destinationCode)"
proof -
  obtain sourceCode where s: "Option.bind (trim (sourceCode_value p)) toUpperCase = Some sourceCode"
    using normalise_ascii [OF assms(1)] by blast
  obtain destinationCode where
    d: "Option.bind (trim (destinationCode_value p)) toUpperCase = Some destinationCode"
    using normalise_ascii [OF assms(2)] by blast
  have sub: "submit outcome p =
      Some (if sourceCode = [] \<or> destinationCode = []
            then showError ''Please enter both source and destination station codes.'' p
            else if sourceCode = destinationCode
            then showError ''Source and destination stations cannot be the same.'' p
            else searchTrains sourceCode destinationCode outcome p)"
    by (simp add: submit_def s d)
  have req: "requests (searchTrains sourceCode destinationCode outcome p) =
      requests p @ [search_url sourceCode destinationCode]"
    by (simp add: searchTrains_def requests_settle dispatch_fields)
  have body: "(sourceCode = [] \<or> destinationCode = [] \<or> sourceCode = destinationCode \<longrightarrow>
       submit outcome p =
         Some (showError (if sourceCode = [] \<or> destinationCode = []
                          then ''Please enter both source and destination station codes.''
                          else ''Source and destination stations cannot be the same.'') p) \<and>
       map_option requests (submit outcome p) = Some (requests p) \<and>
       map_option errorMessage_display (submit outcome p) = Some ''block'') \<and>
    (sourceCode \<noteq> [] \<and> destinationCode \<noteq> [] \<and> sourceCode \<noteq> destinationCode \<longrightarrow>
       submit outcome p = Some (searchTrains sourceCode destinationCode outcome p) \<and>
       map_option requests (submit outcome p) =
         Some (requests p @ [search_url sourceCode destinationCode])) \<and>
    (map_option requests (submit outcome p) \<noteq> Some (requests p) \<longrightarrow>
       sourceCode \<noteq> [] \<and> destinationCode \<noteq> [] \<and> sourceCode \<noteq> destinationCode)"
    unfolding sub by (auto simp: showError_def req)
  from s d body show ?thesis
    by blast
qed

theorem submit_validation_witness:
  "is_ascii '' ndls'' \<and> is_ascii ''NDLS '' \<and>
   Option.bind (trim '' ndls'') toUpperCase = Some ''NDLS'' \<and>
   Option.bind (trim ''NDLS '') toUpperCase = Some ''NDLS'' \<and>
   submit (FetchResolved \<lparr>status = 200, statusText = ''OK'', body = JsonArray []\<rparr>)
     (blank_page\<lparr>sourceCode_value := '' ndls'', destinationCode_value := ''NDLS ''\<rparr>) =
     Some (showError ''Source and destination stations cannot be the same.''
       (blank_page\<lparr>sourceCode_value := '' ndls'', destinationCode_value := ''NDLS ''\<rparr>)) \<and>
   map_option requests
     (submit (FetchResolved \<lparr>status = 200, statusText = ''OK'', body = JsonArray []\<rparr>)
       (blank_page\<lparr>sourceCode_value := '' ndls'', destinationCode_value := ''NDLS ''\<rparr>)) =
     Some [] \<and>
   is_ascii ''ndls'' \<and> is_ascii ''hwh'' \<and>
   Option.bind (trim ''ndls'') toUpperCase = Some ''NDLS'' \<and>
   Option.bind (trim ''hwh'') toUpperCase = Some ''HWH'' \<and>
   map_option requests
     (submit (FetchResolved \<lparr>status = 200, statusText = ''OK'', body = JsonArray []\<rparr>)
       (blank_page\<lparr>sourceCode_value := ''ndls'', destinationCode_value := ''hwh''\<rparr>)) =
     Some [''http://localhost:8080/search/by-code?sourceCode=NDLS&destinationCode=HWH'']"
proof -
  let ?o = "FetchResolved \<lparr>status = 200, statusText = ''OK'', body = JsonArray []\<rparr>"
  let ?p1 = "blank_page\<lparr>sourceCode_value := '' ndls'', destinationCode_value := ''NDLS ''\<rparr>"
  let ?p2 = "blank_page\<lparr>sourceCode_value := ''ndls'', destinationCode_value := ''hwh''\<rparr>"
  have f1: "sourceCode_value ?p1 = '' ndls''" "destinationCode_value ?p1 = ''NDLS ''"
    and f2: "sourceCode_value ?p2 = ''ndls''" "destinationCode_value ?p2 = ''hwh''"
    by simp_all
  have asc: "is_ascii '' ndls''" "is_ascii ''NDLS ''" "is_ascii ''ndls''" "is_ascii ''hwh''"
    by code_simp+
  have n: "Option.bind (trim '' ndls'') toUpperCase = Some ''NDLS''"
    "Option.bind (trim ''NDLS '') toUpperCase = Some ''NDLS''"
    "Option.bind (trim ''ndls'') toUpperCase = Some ''NDLS''"
    "Option.bind (trim ''hwh'') toUpperCase = Some ''HWH''"
    by code_simp+
  have r: "requests ?p1 = []" "requests ?p2 = []"
    by (simp_all add: blank_page_def)
  have u: "search_url ''NDLS'' ''HWH'' =
      ''http://localhost:8080/search/by-code?sourceCode=NDLS&destinationCode=HWH''"
    by code_simp
  have a1: "is_ascii (sourceCode_value ?p1)" "is_ascii (destinationCode_value ?p1)"
    unfolding f1 by (rule asc)+
  have a2: "is_ascii (sourceCode_value ?p2)" "is_ascii (destinationCode_value ?p2)"
    unfolding f2 by (rule asc)+
  note t1 = submit_validation [OF a1, of ?o, unfolded f1 n]
  from t1 have e1: "submit ?o ?p1 =
      Some (showError ''Source and destination stations cannot be the same.'' ?p1)"
    by auto
  from t1 have e2: "map_option requests (submit ?o ?p1) = Some (requests ?p1)"
    by auto
  note t2 = submit_validation [OF a2, of ?o, unfolded f2 n]
  from t2 have e3: "map_option requests (submit ?o ?p2) =
      Some (requests ?p2 @ [search_url ''NDLS'' ''HWH''])"
    by auto
  note e2' = e2 [unfolded r]
  note e3' = e3 [unfolded r u append_Nil]
  from asc n e1 e2' e3' show ?thesis
    by blast
qed

text \<open>
  Claim C4. For a response with a success status whose parsed body is the empty array, the search
  continues with \<^verbatim>\<open>showNoResults\<close>: the list holds the no-trains panel and no card, the
  route summary is the two codes, the results container is shown, the loading indicator is
  hidden, and no error is shown or logged.
\<close>

theorem search_empty:
  assumes "ok r" and "body r = JsonArray []"
  shows "searchTrains_settle s d (FetchResolved r) q = showNoResults s d (hideLoading q) \<and>
    trainsList_children (searchTrains s d (FetchResolved r) p) = [Markup (no_results_markup s d)] \<and>
    routeInfo_innerHTML (searchTrains s d (FetchResolved r) p) = s @ '' '' @ arrow @ '' '' @ d \<and>
    resultsContainer_display (searchTrains s d (FetchResolved r) p) = ''block'' \<and>
    loading_display (searchTrains s d (FetchResolved r) p) = ''none'' \<and>
    errorMessage_display (searchTrains s d (FetchResolved r) p) = ''none'' \<and>
    console_errors (searchTrains s d (FetchResolved r) p) = console_errors p \<and>
    timers (searchTrains s d (FetchResolved r) p) = timers p"
proof -
  have st: "searchTrains_settle s d (FetchResolved r) q = showNoResults s d (hideLoading q)" for q
    using assms by (simp add: searchTrains_settle_def)
  have ne: "no_results_markup s d \<noteq> []"
    by (simp add: no_results_markup_def)
  show ?thesis
    by (simp add: st searchTrains_def showNoResults_def hideLoading_def dispatch_fields
        set_innerHTML_def ne)
qed

theorem search_empty_witness:
  "ok \<lparr>status = 200, statusText = ''OK'', body = JsonArray []\<rparr> \<and>
   trainsList_children
     (searchTrains ''NDLS'' ''HWH''
        (FetchResolved \<lparr>status = 200, statusText = ''OK'', body = JsonArray []\<rparr>) blank_page) =
     [Markup (no_results_markup ''NDLS'' ''HWH'')] \<and>
   resultsContainer_display
     (searchTrains ''NDLS'' ''HWH''
        (FetchResolved \<lparr>status = 200, statusText = ''OK'', body = JsonArray []\<rparr>) blank_page) =
     ''block''"
proof -
  let ?r = "\<lparr>status = 200, statusText = ''OK'', body = JsonArray []\<rparr>"
  have h: "ok ?r" "body ?r = JsonArray []"
    by (simp_all add: ok_def)
  from search_empty [OF h, of "''NDLS''" "''HWH''" blank_page blank_page] h(1)
  show ?thesis
    by simp
qed

text \<open>
  Claim C5. For a response whose status is not a success status, the search raises an error with the
  message HTTP, the status, a colon and the status text; the text shown to the user is
  that message after \<^verbatim>\<open>Search failed: \<close>, so it contains the status number and the status
  text as they are.
\<close>

theorem search_http_error:
  assumes "\<not> ok r"
  shows "errorText_textContent (searchTrains s d (FetchResolved r) p) =
      ''Search failed: HTTP '' @ show_nat (status r) @ '': '' @ statusText r \<and>
    includes_str (errorText_textContent (searchTrains s d (FetchResolved r) p)) (show_nat (status r)) \<and>
    includes_str (errorText_textContent (searchTrains s d (FetchResolved r) p)) (statusText r) \<and>
    errorMessage_display (searchTrains s d (FetchResolved r) p) = ''block'' \<and>
    loading_display (searchTrains s d (FetchResolved r) p) = ''none'' \<and>
    console_errors (searchTrains s d (FetchResolved r) p) =
      console_errors p @
        [\<lparr>name = ''Error'', message = ''HTTP '' @ show_nat (status r) @ '': '' @ statusText r\<rparr>] \<and>
    searchTrains_settle s d (FetchResolved r) q =
      searchTrains_catch
        \<lparr>name = ''Error'', message = ''HTTP '' @ show_nat (status r) @ '': '' @ statusText r\<rparr> q"
proof -
  let ?e = "\<lparr>name = ''Error'', message = ''HTTP '' @ show_nat (status r) @ '': '' @ statusText r\<rparr>"
  have st: "searchTrains_settle s d (FetchResolved r) q = searchTrains_catch ?e q" for q
    using assms by (simp add: searchTrains_settle_def)
  have shown: "errorText_textContent (searchTrains_catch ?e q) =
      ''Search failed: HTTP '' @ show_nat (status r) @ '': '' @ statusText r" for q
    by (simp add: searchTrains_catch_def Let_def showError_def)
  have i1: "includes_str (''Search failed: HTTP '' @ show_nat (status r) @ '': '' @ statusText r)
      (show_nat (status r))"
    by (rule includes_str_append)
  have "includes_str ((''Search failed: HTTP '' @ show_nat (status r) @ '': '') @ statusText r @ [])
      (statusText r)"
    by (rule includes_str_append)
  then have i2: "includes_str (''Search failed: HTTP '' @ show_nat (status r) @ '': '' @ statusText r)
      (statusText r)"
    by (simp only: append_assoc append_Nil2)
  have rest: "errorMessage_display (searchTrains_catch ?e q) = ''block''"
    "console_errors (searchTrains_catch ?e q) = console_errors q @ [?e]" for q
    by (simp_all add: searchTrains_catch_def Let_def showError_def hideLoading_def)
  have whole: "searchTrains s d (FetchResolved r) p =
      searchTrains_catch ?e (searchTrains_dispatch s d p)"
    by (simp only: searchTrains_def st)
  have msg: "errorText_textContent (searchTrains s d (FetchResolved r) p) =
      ''Search failed: HTTP '' @ show_nat (status r) @ '': '' @ statusText r"
    by (simp only: whole shown)
  show ?thesis
  proof (intro conjI)
    show "errorText_textContent (searchTrains s d (FetchResolved r) p) =
        ''Search failed: HTTP '' @ show_nat (status r) @ '': '' @ statusText r"
      by (rule msg)
    show "includes_str (errorText_textContent (searchTrains s d (FetchResolved r) p))
        (show_nat (status r))"
      unfolding msg by (rule i1)
    show "includes_str (errorText_textContent (searchTrains s d (FetchResolved r) p))
        (statusText r)"
      unfolding msg by (rule i2)
    show "errorMessage_display (searchTrains s d (FetchResolved r) p) = ''block''"
      by (simp only: whole rest)
    show "loading_display (searchTrains s d (FetchResolved r) p) = ''none''"
      by (simp only: whole loading_catch)
    show "console_errors (searchTrains s d (FetchResolved r) p) = console_errors p @ [?e]"
      by (simp only: whole rest dispatch_fields)
    show "searchTrains_settle s d (FetchResolved r) q = searchTrains_catch ?e q"
      by (rule st)
  qed
qed

theorem search_http_error_witness:
  "\<not> ok \<lparr>status = 404, statusText = ''Not Found'', body = JsonFalsy\<rparr> \<and>
   errorText_textContent
     (searchTrains ''NDLS'' ''HWH''
        (FetchResolved \<lparr>status = 404, statusText = ''Not Found'', body = JsonFalsy\<rparr>)
        blank_page) =
     ''Search failed: HTTP 404: Not Found''"
proof -
  let ?r = "\<lparr>status = 404, statusText = ''Not Found'', body = JsonFalsy\<rparr>"
  have h: "\<not> ok ?r"
    by (simp add: ok_def)
  have n: "show_nat 404 = ''404''"
    by code_simp
  from search_http_error [OF h, of "''NDLS''" "''HWH''" blank_page blank_page]
  have "errorText_textContent (searchTrains ''NDLS'' ''HWH'' (FetchResolved ?r) blank_page) =
      ''Search failed: HTTP '' @ show_nat (status ?r) @ '': '' @ statusText ?r"
    by (rule conjunct1)
  then show ?thesis
    using h by (simp add: n)
qed

text \<open>
  Claim C6. A transport failure should be shown as the connectivity message. The handler
  recognises one by the word \<^verbatim>\<open>fetch\<close> in the message of a \<^verbatim>\<open>TypeError\<close> (line 63), a text
  the browser chooses. A failure reported as \<^verbatim>\<open>Load failed\<close> is shown as
  \<^verbatim>\<open>Search failed: Load failed\<close> and not as the connectivity message, while one reported as
  \<^verbatim>\<open>Failed to fetch\<close> is shown as the connectivity message.
\<close>

theorem search_network_failure_load_failed:
  "errorText_textContent
     (searchTrains ''NDLS'' ''HWH''
        (FetchRejected \<lparr>name = ''TypeError'', message = ''Load failed''\<rparr>) blank_page) =
     ''Search failed: Load failed'' \<and>
   errorText_textContent
     (searchTrains ''NDLS'' ''HWH''
        (FetchRejected \<lparr>name = ''TypeError'', message = ''Load failed''\<rparr>) blank_page) \<noteq>
     connect_message \<and>
   errorText_textContent
     (searchTrains ''NDLS'' ''HWH''
        (FetchRejected \<lparr>name = ''TypeError'', message = ''Failed to fetch''\<rparr>) blank_page) =
     connect_message"
  by code_simp

text \<open>
  Claim C7. The loading indicator is shown before the request is sent: it is displayed in the page
  in which the request is issued, and that page has sent nothing yet. Whatever the outcome
  of the request, and whatever page the outcome arrives in, the loading indicator is hidden
  afterwards.
\<close>

theorem loading_cleared_on_every_path:
  "loading_display (searchTrains_prepare p) = ''block'' \<and>
   requests (searchTrains_prepare p) = requests p \<and>
   searchTrains_dispatch s d p = fetch (search_url s d) (searchTrains_prepare p) \<and>
   loading_display (searchTrains_dispatch s d p) = ''block'' \<and>
   requests (searchTrains_dispatch s d p) = requests p @ [search_url s d] \<and>
   loading_display (searchTrains_settle s d outcome q) = ''none'' \<and>
   loading_display (searchTrains s d outcome p) = ''none''"
  by (simp add: dispatch_fields loading_settle searchTrains_def)
    (simp add: searchTrains_dispatch_def searchTrains_prepare_def hideResults_def hideError_def
      showLoading_def)

theorem loading_cleared_on_every_path_witness:
  "loading_display (searchTrains_dispatch ''NDLS'' ''HWH'' blank_page) = ''block'' \<and>
   loading_display
     (searchTrains ''NDLS'' ''HWH''
        (FetchResolved \<lparr>status = 200, statusText = ''OK'', body = JsonArray [sample_trip]\<rparr>)
        blank_page) = ''none''"
  using loading_cleared_on_every_path [of blank_page "''NDLS''" "''HWH''"
      "FetchResolved \<lparr>status = 200, statusText = ''OK'', body = JsonArray [sample_trip]\<rparr>"
      blank_page]
  by blast

text \<open>
  Claim C8. After \<^verbatim>\<open>displayResults\<close> on a sequence, in any page and so also after an earlier call on
  another sequence, the list holds exactly one card per element of that sequence, the card
  at each position built from the element at that position and its index; for an element
  with well-formed times the card carries the markup of the template.
\<close>

theorem displayResults_rerender:
  "trainsList_children (displayResults ys s2 d2 q) =
     map (\<lambda>(i, t). Card (createTrainCard t i)) (enumerate 0 ys) \<and>
   trainsList_children (displayResults ys s2 d2 (displayResults xs s1 d1 p)) =
     map (\<lambda>(i, t). Card (createTrainCard t i)) (enumerate 0 ys) \<and>
   length (trainsList_children (displayResults ys s2 d2 (displayResults xs s1 d1 p))) = length ys \<and>
   (\<forall>i<length ys.
      trainsList_children (displayResults ys s2 d2 (displayResults xs s1 d1 p)) ! i =
        Card (createTrainCard (ys ! i) i) \<and>
      (wellformed_trip (ys ! i) \<longrightarrow>
         (\<exists>duration departure arrival.
            calculateDuration (departureTime (ys ! i)) (arrivalTime (ys ! i)) = Some duration \<and>
            formatTime (departureTime (ys ! i)) = Some departure \<and>
            formatTime (arrivalTime (ys ! i)) = Some arrival \<and>
            innerHTML (createTrainCard (ys ! i) i) =
              Some (card_markup (ys ! i) duration departure arrival))))"
proof -
  have ch: "trainsList_children (displayResults ys s2 d2 q) =
      map (\<lambda>(i, t). Card (createTrainCard t i)) (enumerate 0 ys)" for q
    by (simp add: displayResults_eq)
  have nth: "map (\<lambda>(i, t). Card (createTrainCard t i)) (enumerate 0 ys) ! i =
      Card (createTrainCard (ys ! i) i)" if "i < length ys" for i
    using that by (simp add: nth_enumerate_eq)
  have len: "length (map (\<lambda>(i, t). Card (createTrainCard t i)) (enumerate 0 ys)) = length ys"
    by simp
  show ?thesis
    unfolding ch len using nth createTrainCard_wellformed by blast
qed

theorem displayResults_rerender_witness:
  "(0::nat) < length [sample_trip] \<and> wellformed_trip sample_trip \<and>
   trainsList_children
     (displayResults [sample_trip] ''NDLS'' ''HWH''
        (displayResults [sample_trip, sample_trip] ''NDLS'' ''HWH'' blank_page)) =
     [Card (createTrainCard sample_trip 0)] \<and>
   innerHTML (createTrainCard sample_trip 0) =
     Some (card_markup sample_trip ''17h 5m'' ''4:50 PM'' ''9:55 AM'')"
proof -
  have w: "wellformed_trip sample_trip"
    by code_simp
  have v: "calculateDuration (departureTime sample_trip) (arrivalTime sample_trip) = Some ''17h 5m''"
    "formatTime (departureTime sample_trip) = Some ''4:50 PM''"
    "formatTime (arrivalTime sample_trip) = Some ''9:55 AM''"
    by code_simp+
  note t = displayResults_rerender [of "[sample_trip]" "''NDLS''" "''HWH''" blank_page
      "[sample_trip, sample_trip]" "''NDLS''" "''HWH''" blank_page]
  from t have ch: "trainsList_children
     (displayResults [sample_trip] ''NDLS'' ''HWH''
        (displayResults [sample_trip, sample_trip] ''NDLS'' ''HWH'' blank_page)) =
     map (\<lambda>(i, t). Card (createTrainCard t i)) (enumerate 0 [sample_trip])"
    by blast
  from t have "\<forall>i<length [sample_trip]. wellformed_trip ([sample_trip] ! i) \<longrightarrow>
      (\<exists>duration departure arrival.
         calculateDuration (departureTime ([sample_trip] ! i)) (arrivalTime ([sample_trip] ! i)) =
           Some duration \<and>
         formatTime (departureTime ([sample_trip] ! i)) = Some departure \<and>
         formatTime (arrivalTime ([sample_trip] ! i)) = Some arrival \<and>
         innerHTML (createTrainCard ([sample_trip] ! i) i) =
           Some (card_markup ([sample_trip] ! i) duration departure arrival))"
    by blast
  then have "\<exists>duration departure arrival.
         calculateDuration (departureTime sample_trip) (arrivalTime sample_trip) = Some duration \<and>
         formatTime (departureTime sample_trip) = Some departure \<and>
         formatTime (arrivalTime sample_trip) = Some arrival \<and>
         innerHTML (createTrainCard sample_trip 0) =
           Some (card_markup sample_trip duration departure arrival)"
    using w by (simp del: ex_simps)
  then have "innerHTML (createTrainCard sample_trip 0) =
     Some (card_markup sample_trip ''17h 5m'' ''4:50 PM'' ''9:55 AM'')"
    unfolding v by blast
  with w ch show ?thesis
    by simp
qed

text \<open>
  Claim C9. For well-formed times the duration in minutes is between 0 and 1439, so the hours shown
  are between 0 and 23 and the minutes between 0 and 59; the text \<^verbatim>\<open>24h 0m\<close> is not
  produced.
\<close>

theorem calculateDuration_bounded:
  assumes "wellformed_time dep" and "wellformed_time arr"
  shows "\<exists>d. durationMinutes dep arr = Some d \<and> 0 \<le> d \<and> d \<le> 1439 \<and>
           calculateDuration dep arr =
             Some (show_int (d div 60) @ ''h '' @ show_int (js_rem d 60) @ ''m'') \<and>
           0 \<le> d div 60 \<and> d div 60 \<le> 23 \<and> 0 \<le> js_rem d 60 \<and> js_rem d 60 \<le> 59 \<and>
           calculateDuration dep arr \<noteq> Some ''24h 0m''"
proof -
  let ?d = "spec_total dep arr"
  have d: "durationMinutes dep arr = Some ?d"
    by (rule durationMinutes_wellformed [OF assms])
  have lo: "0 \<le> ?d" and hi: "?d \<le> 1439"
    by (rule spec_total_range [OF assms])+
  have r: "js_rem ?d 60 = ?d mod 60"
    using lo by (simp add: js_rem_nonneg)
  have c: "calculateDuration dep arr =
      Some (show_int (?d div 60) @ ''h '' @ show_int (js_rem ?d 60) @ ''m'')"
    by (simp add: calculateDuration_def d duration_text_def Let_def)
  have h: "0 \<le> ?d div 60" "?d div 60 \<le> 23"
    using lo hi by simp_all
  have m: "0 \<le> js_rem ?d 60" "js_rem ?d 60 \<le> 59"
    unfolding r by simp_all
  have "show_int (?d div 60) @ ''h '' @ show_int (js_rem ?d 60) @ ''m'' \<noteq> ''24h 0m''"
    using h by (rule hours_text_below_24)
  with d lo hi c h m show ?thesis
    by simp
qed

theorem calculateDuration_bounded_witness:
  "wellformed_time ''23:30'' \<and> wellformed_time ''00:15'' \<and>
   durationMinutes ''23:30'' ''00:15'' = Some 45 \<and>
   calculateDuration ''23:30'' ''00:15'' \<noteq> Some ''24h 0m''"
proof -
  have w: "wellformed_time ''23:30''" "wellformed_time ''00:15''"
    by code_simp+
  have d: "durationMinutes ''23:30'' ''00:15'' = Some 45"
    by code_simp
  from calculateDuration_bounded [OF w]
  have "calculateDuration ''23:30'' ''00:15'' \<noteq> Some ''24h 0m''"
    by blast
  with w d show ?thesis
    by simp
qed

text \<open>
  Claim C10. \<^verbatim>\<open>displayResults\<close> on the empty sequence leaves the route summary as it was, empties the
  list, and schedules the callback that shows the results container; once that callback has
  run the container is displayed, with the summary and the empty list unchanged.
\<close>

theorem displayResults_empty:
  "displayResults [] s d p = p\<lparr>trainsList_children := [], timers := timers p @ [RevealResults]\<rparr> \<and>
   routeInfo_innerHTML (displayResults [] s d p) = routeInfo_innerHTML p \<and>
   trainsList_children (displayResults [] s d p) = [] \<and>
   resultsContainer_display (displayResults [] s d p) = resultsContainer_display p \<and>
   timers (displayResults [] s d p) = timers p @ [RevealResults] \<and>
   resultsContainer_display (fire_timer (displayResults [] s d p)) = ''block'' \<and>
   routeInfo_innerHTML (fire_timer (displayResults [] s d p)) = routeInfo_innerHTML p \<and>
   trainsList_children (fire_timer (displayResults [] s d p)) = []"
proof -
  have eq: "displayResults [] s d p =
      p\<lparr>trainsList_children := [], timers := timers p @ [RevealResults]\<rparr>"
    by (simp add: displayResults_eq)
  have fire: "resultsContainer_display (fire_timer (displayResults [] s d p)) = ''block''"
    "routeInfo_innerHTML (fire_timer (displayResults [] s d p)) = routeInfo_innerHTML p"
    "trainsList_children (fire_timer (displayResults [] s d p)) = []"
    unfolding eq by (cases "timers p"; simp add: fire_timer_def split: timer.split)+
  show ?thesis
    unfolding eq [symmetric] using fire by (simp add: eq)
qed

theorem displayResults_empty_witness:
  "routeInfo_innerHTML
     (displayResults [] ''NDLS'' ''HWH'' (blank_page\<lparr>routeInfo_innerHTML := ''earlier''\<rparr>)) =
     ''earlier'' \<and>
   resultsContainer_display
     (fire_timer
        (displayResults [] ''NDLS'' ''HWH'' (blank_page\<lparr>routeInfo_innerHTML := ''earlier''\<rparr>))) =
     ''block''"
proof -
  let ?p = "blank_page\<lparr>routeInfo_innerHTML := ''earlier''\<rparr>"
  note t = displayResults_empty [of "''NDLS''" "''HWH''" ?p]
  from t have a: "routeInfo_innerHTML (displayResults [] ''NDLS'' ''HWH'' ?p) =
      routeInfo_innerHTML ?p"
    by blast
  from t have b: "resultsContainer_display (fire_timer (displayResults [] ''NDLS'' ''HWH'' ?p)) =
      ''block''"
    by blast
  show ?thesis
    unfolding a b by simp
qed

end
